theory Spec2Isabelle
  imports Main "HOL-Library.Word"
begin

section \<open>Lane values and lane vectors\<close>

text \<open>
  The element types of \<^verbatim>\<open>vhadd.cpp\<close> are the fixed-width integers of C++:
  a \<open>w\<close>-bit lane is a \<open>w word\<close>, read by \<open>sint\<close> where the element type is signed
  and by \<open>uint\<close> where it is unsigned.
\<close>

type_synonym int8_t = "8 word"
type_synonym int16_t = "16 word"
type_synonym int32_t = "32 word"
type_synonym uint8_t = "8 word"
type_synonym uint16_t = "16 word"
type_synonym uint32_t = "32 word"

text \<open>
  Modelled from the spec: the vector types \<^verbatim>\<open>int8x8_t\<close> ... \<^verbatim>\<open>uint32x4_t\<close> are declared
  in \<^verbatim>\<open>vhadd.hpp\<close>, which is not among the sources. Following the data model of the
  specification, a lane vector is a fixed-length ordered sequence of lane values with
  value semantics, index 0 first; here a list whose length is the lane count of the type.
\<close>

type_synonym int8x8_t = "int8_t list"
type_synonym int16x4_t = "int16_t list"
type_synonym int32x2_t = "int32_t list"
type_synonym uint8x8_t = "uint8_t list"
type_synonym uint16x4_t = "uint16_t list"
type_synonym uint32x2_t = "uint32_t list"
type_synonym int8x16_t = "int8_t list"
type_synonym int16x8_t = "int16_t list"
type_synonym int32x4_t = "int32_t list"
type_synonym uint8x16_t = "uint8_t list"
type_synonym uint16x8_t = "uint16_t list"
type_synonym uint32x4_t = "uint32_t list"

section \<open>The expression \<^verbatim>\<open>(N[i] + M[i]) >> 1\<close> at each element type\<close>

text \<open>
  Every loop body of the file is the same text, \<^verbatim>\<open>D[i] = (N[i] + M[i]) >> 1\<close>; what it
  computes is fixed by the element type through the arithmetic conversions of C++
  (\<^verbatim>\<open>int\<close> is 32 bits wide):

  \<^item> 8- and 16-bit operands, signed or unsigned, are promoted to \<^verbatim>\<open>int\<close> (\<open>scast\<close> extends
    the sign, \<open>ucast\<close> extends with zeros); the sum and the shift are those of \<^verbatim>\<open>int\<close>,
    and the assignment narrows the result to the lane width (\<open>ucast\<close> keeps the low bits);
  \<^item> \<^verbatim>\<open>int32_t\<close> operands are already \<^verbatim>\<open>int\<close>: the sum is formed in 32 bits. ISO C++
    leaves a signed sum outside the range of \<^verbatim>\<open>int\<close> undefined. \<open>hadd_s32\<close> is the value of
    the expression wherever it is defined, and elsewhere what the machine's addition
    yields, the two's complement sum (\<open>+\<close> on \<open>32 word\<close>); where it is defined is the
    subject of \<open>hadd_s32_checked\<close> below;
  \<^item> \<^verbatim>\<open>uint32_t\<close> operands are \<^verbatim>\<open>unsigned int\<close>: the sum is reduced modulo \<open>2 ^ 32\<close> and
    the shift is logical (\<open>drop_bit\<close>).

  The right shift of an \<^verbatim>\<open>int\<close> is the arithmetic shift (\<open>signed_drop_bit\<close>), as every
  two's complement compiler implements it.
\<close>

definition hadd_s8 :: "int8_t \<Rightarrow> int8_t \<Rightarrow> int8_t" where
  "hadd_s8 a b = ucast (signed_drop_bit 1 ((scast a :: 32 word) + scast b))"

definition hadd_s16 :: "int16_t \<Rightarrow> int16_t \<Rightarrow> int16_t" where
  "hadd_s16 a b = ucast (signed_drop_bit 1 ((scast a :: 32 word) + scast b))"

definition hadd_s32 :: "int32_t \<Rightarrow> int32_t \<Rightarrow> int32_t" where
  "hadd_s32 a b = signed_drop_bit 1 (a + b)"

definition hadd_u8 :: "uint8_t \<Rightarrow> uint8_t \<Rightarrow> uint8_t" where
  "hadd_u8 a b = ucast (signed_drop_bit 1 ((ucast a :: 32 word) + ucast b))"

definition hadd_u16 :: "uint16_t \<Rightarrow> uint16_t \<Rightarrow> uint16_t" where
  "hadd_u16 a b = ucast (signed_drop_bit 1 ((ucast a :: 32 word) + ucast b))"

definition hadd_u32 :: "uint32_t \<Rightarrow> uint32_t \<Rightarrow> uint32_t" where
  "hadd_u32 a b = drop_bit 1 (a + b)"

section \<open>The lane loop\<close>

text \<open>
  The variables of one call: the two operands, received by value, and the local
  result vector \<^verbatim>\<open>D\<close>.
\<close>

record 'a frame =
  N :: "'a list"
  M :: "'a list"
  D :: "'a list"

text \<open>The statement \<^verbatim>\<open>D[i] = f (N[i], M[i])\<close>.\<close>

definition store_lane :: "('a \<Rightarrow> 'a \<Rightarrow> 'a) \<Rightarrow> nat \<Rightarrow> 'a frame \<Rightarrow> 'a frame" where
  "store_lane f i s = s\<lparr>D := (D s)[i := f (N s ! i) (M s ! i)]\<rparr>"

text \<open>
  \<^verbatim>\<open>for (...; i < n; i++) body\<close>, entered at index \<open>i\<close> with \<open>k = n - i\<close> iterations left.
\<close>

primrec for_lanes :: "nat \<Rightarrow> nat \<Rightarrow> (nat \<Rightarrow> 's \<Rightarrow> 's) \<Rightarrow> 's \<Rightarrow> 's" where
  "for_lanes 0 i body s = s"
| "for_lanes (Suc k) i body s = for_lanes k (Suc i) body (body i s)"

text \<open>
  A dispatch entry: the frame is entered with the operands and a fresh \<^verbatim>\<open>D\<close> of \<open>n\<close>
  lanes (every lane of which the loop overwrites), the loop runs from 0 to \<open>n\<close>, and
  \<^verbatim>\<open>D\<close> is returned.
\<close>

definition enter :: "nat \<Rightarrow> 'a::zero list \<Rightarrow> 'a list \<Rightarrow> 'a frame" where
  "enter n a b = \<lparr>N = a, M = b, D = replicate n 0\<rparr>"

definition run :: "('a::zero \<Rightarrow> 'a \<Rightarrow> 'a) \<Rightarrow> nat \<Rightarrow> 'a list \<Rightarrow> 'a list \<Rightarrow> 'a frame" where
  "run f n a b = for_lanes n 0 (store_lane f) (enter n a b)"

section \<open>The twelve dispatch entries\<close>

definition vhadd_s8 :: "int8x8_t \<Rightarrow> int8x8_t \<Rightarrow> int8x8_t" where
  "vhadd_s8 a b = D (run hadd_s8 8 a b)"

definition vhadd_s16 :: "int16x4_t \<Rightarrow> int16x4_t \<Rightarrow> int16x4_t" where
  "vhadd_s16 a b = D (run hadd_s16 4 a b)"

definition vhadd_s32 :: "int32x2_t \<Rightarrow> int32x2_t \<Rightarrow> int32x2_t" where
  "vhadd_s32 a b = D (run hadd_s32 2 a b)"

definition vhadd_u8 :: "uint8x8_t \<Rightarrow> uint8x8_t \<Rightarrow> uint8x8_t" where
  "vhadd_u8 a b = D (run hadd_u8 8 a b)"

definition vhadd_u16 :: "uint16x4_t \<Rightarrow> uint16x4_t \<Rightarrow> uint16x4_t" where
  "vhadd_u16 a b = D (run hadd_u16 4 a b)"

definition vhadd_u32 :: "uint32x2_t \<Rightarrow> uint32x2_t \<Rightarrow> uint32x2_t" where
  "vhadd_u32 a b = D (run hadd_u32 2 a b)"

definition vhaddq_s8 :: "int8x16_t \<Rightarrow> int8x16_t \<Rightarrow> int8x16_t" where
  "vhaddq_s8 a b = D (run hadd_s8 16 a b)"

definition vhaddq_s16 :: "int16x8_t \<Rightarrow> int16x8_t \<Rightarrow> int16x8_t" where
  "vhaddq_s16 a b = D (run hadd_s16 8 a b)"

definition vhaddq_s32 :: "int32x4_t \<Rightarrow> int32x4_t \<Rightarrow> int32x4_t" where
  "vhaddq_s32 a b = D (run hadd_s32 4 a b)"

definition vhaddq_u8 :: "uint8x16_t \<Rightarrow> uint8x16_t \<Rightarrow> uint8x16_t" where
  "vhaddq_u8 a b = D (run hadd_u8 16 a b)"

definition vhaddq_u16 :: "uint16x8_t \<Rightarrow> uint16x8_t \<Rightarrow> uint16x8_t" where
  "vhaddq_u16 a b = D (run hadd_u16 8 a b)"

definition vhaddq_u32 :: "uint32x4_t \<Rightarrow> uint32x4_t \<Rightarrow> uint32x4_t" where
  "vhaddq_u32 a b = D (run hadd_u32 4 a b)"

section \<open>Where the source is defined\<close>

text \<open>
  The definitions above give the value of every lane. ISO C++ does not define every
  step of the source: the sum of two \<^verbatim>\<open>int\<close> that leaves the range of \<^verbatim>\<open>int\<close> is undefined
  behaviour, and so is an index outside a vector. The second reading below follows the
  same statements and yields \<open>None\<close> where the behaviour of the source is undefined, so
  that whether a call returns is a property to be proved and never an assumption.
  Unsigned sums are defined everywhere (they are reduced modulo \<open>2 ^ 32\<close>).

  \<^verbatim>\<open>x + y\<close> on \<^verbatim>\<open>int\<close>: defined where the exact sum is an \<^verbatim>\<open>int\<close>.
\<close>

definition int_add :: "32 word \<Rightarrow> 32 word \<Rightarrow> 32 word option" where
  "int_add x y =
     (if - 2147483648 \<le> sint x + sint y \<and> sint x + sint y \<le> 2147483647
      then Some (x + y) else None)"

definition hadd_s8_checked :: "int8_t \<Rightarrow> int8_t \<Rightarrow> int8_t option" where
  "hadd_s8_checked a b =
     map_option (\<lambda>s. ucast (signed_drop_bit 1 s)) (int_add (scast a) (scast b))"

definition hadd_s16_checked :: "int16_t \<Rightarrow> int16_t \<Rightarrow> int16_t option" where
  "hadd_s16_checked a b =
     map_option (\<lambda>s. ucast (signed_drop_bit 1 s)) (int_add (scast a) (scast b))"

definition hadd_s32_checked :: "int32_t \<Rightarrow> int32_t \<Rightarrow> int32_t option" where
  "hadd_s32_checked a b = map_option (signed_drop_bit 1) (int_add a b)"

definition hadd_u8_checked :: "uint8_t \<Rightarrow> uint8_t \<Rightarrow> uint8_t option" where
  "hadd_u8_checked a b =
     map_option (\<lambda>s. ucast (signed_drop_bit 1 s)) (int_add (ucast a) (ucast b))"

definition hadd_u16_checked :: "uint16_t \<Rightarrow> uint16_t \<Rightarrow> uint16_t option" where
  "hadd_u16_checked a b =
     map_option (\<lambda>s. ucast (signed_drop_bit 1 s)) (int_add (ucast a) (ucast b))"

definition hadd_u32_checked :: "uint32_t \<Rightarrow> uint32_t \<Rightarrow> uint32_t option" where
  "hadd_u32_checked a b = Some (drop_bit 1 (a + b))"

text \<open>
  The statement \<^verbatim>\<open>D[i] = g (N[i], M[i])\<close>: undefined where an index is outside its vector
  or where \<open>g\<close> is.
\<close>

definition store_lane_checked ::
  "('a \<Rightarrow> 'a \<Rightarrow> 'a option) \<Rightarrow> nat \<Rightarrow> 'a frame \<Rightarrow> 'a frame option" where
  "store_lane_checked g i s =
     (if i < length (N s) \<and> i < length (M s) \<and> i < length (D s)
      then map_option (\<lambda>v. s\<lparr>D := (D s)[i := v]\<rparr>) (g (N s ! i) (M s ! i))
      else None)"

text \<open>The loop: undefined as soon as one iteration is.\<close>

primrec for_lanes_checked :: "nat \<Rightarrow> nat \<Rightarrow> (nat \<Rightarrow> 's \<Rightarrow> 's option) \<Rightarrow> 's \<Rightarrow> 's option" where
  "for_lanes_checked 0 i body s = Some s"
| "for_lanes_checked (Suc k) i body s =
     (case body i s of None \<Rightarrow> None | Some t \<Rightarrow> for_lanes_checked k (Suc i) body t)"

definition call :: "('a::zero \<Rightarrow> 'a \<Rightarrow> 'a option) \<Rightarrow> nat \<Rightarrow> 'a list \<Rightarrow> 'a list \<Rightarrow> 'a list option" where
  "call g n a b = map_option D (for_lanes_checked n 0 (store_lane_checked g) (enter n a b))"

definition vhadd_s8_checked :: "int8x8_t \<Rightarrow> int8x8_t \<Rightarrow> int8x8_t option" where
  "vhadd_s8_checked a b = call hadd_s8_checked 8 a b"

definition vhadd_s16_checked :: "int16x4_t \<Rightarrow> int16x4_t \<Rightarrow> int16x4_t option" where
  "vhadd_s16_checked a b = call hadd_s16_checked 4 a b"

definition vhadd_s32_checked :: "int32x2_t \<Rightarrow> int32x2_t \<Rightarrow> int32x2_t option" where
  "vhadd_s32_checked a b = call hadd_s32_checked 2 a b"

definition vhadd_u8_checked :: "uint8x8_t \<Rightarrow> uint8x8_t \<Rightarrow> uint8x8_t option" where
  "vhadd_u8_checked a b = call hadd_u8_checked 8 a b"

definition vhadd_u16_checked :: "uint16x4_t \<Rightarrow> uint16x4_t \<Rightarrow> uint16x4_t option" where
  "vhadd_u16_checked a b = call hadd_u16_checked 4 a b"

definition vhadd_u32_checked :: "uint32x2_t \<Rightarrow> uint32x2_t \<Rightarrow> uint32x2_t option" where
  "vhadd_u32_checked a b = call hadd_u32_checked 2 a b"

definition vhaddq_s8_checked :: "int8x16_t \<Rightarrow> int8x16_t \<Rightarrow> int8x16_t option" where
  "vhaddq_s8_checked a b = call hadd_s8_checked 16 a b"

definition vhaddq_s16_checked :: "int16x8_t \<Rightarrow> int16x8_t \<Rightarrow> int16x8_t option" where
  "vhaddq_s16_checked a b = call hadd_s16_checked 8 a b"

definition vhaddq_s32_checked :: "int32x4_t \<Rightarrow> int32x4_t \<Rightarrow> int32x4_t option" where
  "vhaddq_s32_checked a b = call hadd_s32_checked 4 a b"

definition vhaddq_u8_checked :: "uint8x16_t \<Rightarrow> uint8x16_t \<Rightarrow> uint8x16_t option" where
  "vhaddq_u8_checked a b = call hadd_u8_checked 16 a b"

definition vhaddq_u16_checked :: "uint16x8_t \<Rightarrow> uint16x8_t \<Rightarrow> uint16x8_t option" where
  "vhaddq_u16_checked a b = call hadd_u16_checked 8 a b"

definition vhaddq_u32_checked :: "uint32x4_t \<Rightarrow> uint32x4_t \<Rightarrow> uint32x4_t option" where
  "vhaddq_u32_checked a b = call hadd_u32_checked 4 a b"

section \<open>Properties of a dispatch entry\<close>

text \<open>
  The properties below are stated for an entry \<open>e\<close> of \<open>n\<close> lanes; a vector of the
  entry's shape is a list of length \<open>n\<close>.

  Lane independence: two calls whose operands agree at lane \<open>i\<close> agree at lane \<open>i\<close> of
  the result, and overwriting lane \<open>j\<close> of either operand leaves every result lane other
  than \<open>j\<close> as it was.
\<close>

definition lane_independent :: "nat \<Rightarrow> ('a list \<Rightarrow> 'a list \<Rightarrow> 'a list) \<Rightarrow> bool" where
  "lane_independent n e \<longleftrightarrow>
     (\<forall>a b a' b' i. length a = n \<and> length b = n \<and> length a' = n \<and> length b' = n \<and>
          i < n \<and> a ! i = a' ! i \<and> b ! i = b' ! i
        \<longrightarrow> e a b ! i = e a' b' ! i) \<and>
     (\<forall>a b i j v. length a = n \<and> length b = n \<and> i < n \<and> j < n \<and> i \<noteq> j
        \<longrightarrow> e (a[j := v]) b ! i = e a b ! i \<and> e a (b[j := v]) ! i = e a b ! i)"

text \<open>
  The entry \<open>e\<close> is the call that runs the lane loop with \<open>f\<close> over \<open>n\<close> lanes and returns
  \<^verbatim>\<open>D\<close>; when the call returns, its operands \<^verbatim>\<open>N\<close> and \<^verbatim>\<open>M\<close> hold what was passed in, and
  the vector returned has the operands' shape.
\<close>

definition leaves_operands ::
  "('a::zero \<Rightarrow> 'a \<Rightarrow> 'a) \<Rightarrow> nat \<Rightarrow> ('a list \<Rightarrow> 'a list \<Rightarrow> 'a list) \<Rightarrow> bool" where
  "leaves_operands f n e \<longleftrightarrow>
     (\<forall>a b. e a b = D (run f n a b) \<and> N (run f n a b) = a \<and> M (run f n a b) = b \<and>
        (length a = n \<and> length b = n \<longrightarrow> length (e a b) = length a))"

text \<open>
  Two entries compute the same function of a lane: wherever a lane of the first and a
  lane of the second hold the same pair of values, the two result lanes are equal.
\<close>

definition same_lane_function ::
  "nat \<Rightarrow> ('a list \<Rightarrow> 'a list \<Rightarrow> 'a list) \<Rightarrow> nat \<Rightarrow> ('a list \<Rightarrow> 'a list \<Rightarrow> 'a list) \<Rightarrow> bool" where
  "same_lane_function n e n' e' \<longleftrightarrow>
     (\<forall>a b a' b' i j. length a = n \<and> length b = n \<and> length a' = n' \<and> length b' = n' \<and>
          i < n \<and> j < n' \<and> a ! i = a' ! j \<and> b ! i = b' ! j
        \<longrightarrow> e a b ! i = e' a' b' ! j)"

text \<open>The entry returns the same vector when its operands are exchanged.\<close>

definition commutative_entry :: "nat \<Rightarrow> ('a list \<Rightarrow> 'a list \<Rightarrow> 'a list) \<Rightarrow> bool" where
  "commutative_entry n e \<longleftrightarrow> (\<forall>a b. length a = n \<and> length b = n \<longrightarrow> e a b = e b a)"

section \<open>What the lane expression computes\<close>

text \<open>
  At the 8- and 16-bit element types the promoted sum is exact and the narrowing loses
  nothing: the lane is the floor of half the sum of the two lane values.
\<close>

lemma sint_hadd_s8: "sint (hadd_s8 a b) = (sint a + sint b) div 2"
proof -
  let ?x = "(scast a :: 32 word) + scast b"
  let ?y = "signed_drop_bit 1 ?x"
  have la: "- 128 \<le> sint a" and ua: "sint a < 128"
    using sint_ge [of a] sint_lt [of a] by simp_all
  have lb: "- 128 \<le> sint b" and ub: "sint b < 128"
    using sint_ge [of b] sint_lt [of b] by simp_all
  have pa: "sint (scast a :: 32 word) = sint a"
    by (rule sint_up_scast) (simp add: is_up)
  have pb: "sint (scast b :: 32 word) = sint b"
    by (rule sint_up_scast) (simp add: is_up)
  have "sint ?x = signed_take_bit 31 (sint a + sint b)"
    by (simp add: sint_word_add pa pb)
  also have "\<dots> = sint a + sint b"
    using la ua lb ub by (intro signed_take_bit_int_eq_self) simp_all
  finally have sx: "sint ?x = sint a + sint b" .
  have sy: "sint ?y = (sint a + sint b) div 2"
    by (simp add: sint_signed_drop_bit_eq sx drop_bit_eq_div)
  have "(ucast ?y :: 8 word) = scast ?y"
    by (simp add: down_cast_same is_down)
  then have "sint (ucast ?y :: 8 word) = signed_take_bit 7 (sint ?y)"
    by (simp add: signed_scast_eq)
  also have "\<dots> = sint ?y"
    using la ua lb ub unfolding sy by (intro signed_take_bit_int_eq_self) simp_all
  finally have "sint (ucast ?y :: 8 word) = sint ?y" .
  from this [unfolded sy] show ?thesis
    unfolding hadd_s8_def .
qed

lemma sint_hadd_s16: "sint (hadd_s16 a b) = (sint a + sint b) div 2"
proof -
  let ?x = "(scast a :: 32 word) + scast b"
  let ?y = "signed_drop_bit 1 ?x"
  have la: "- 32768 \<le> sint a" and ua: "sint a < 32768"
    using sint_ge [of a] sint_lt [of a] by simp_all
  have lb: "- 32768 \<le> sint b" and ub: "sint b < 32768"
    using sint_ge [of b] sint_lt [of b] by simp_all
  have pa: "sint (scast a :: 32 word) = sint a"
    by (rule sint_up_scast) (simp add: is_up)
  have pb: "sint (scast b :: 32 word) = sint b"
    by (rule sint_up_scast) (simp add: is_up)
  have "sint ?x = signed_take_bit 31 (sint a + sint b)"
    by (simp add: sint_word_add pa pb)
  also have "\<dots> = sint a + sint b"
    using la ua lb ub by (intro signed_take_bit_int_eq_self) simp_all
  finally have sx: "sint ?x = sint a + sint b" .
  have sy: "sint ?y = (sint a + sint b) div 2"
    by (simp add: sint_signed_drop_bit_eq sx drop_bit_eq_div)
  have "(ucast ?y :: 16 word) = scast ?y"
    by (simp add: down_cast_same is_down)
  then have "sint (ucast ?y :: 16 word) = signed_take_bit 15 (sint ?y)"
    by (simp add: signed_scast_eq)
  also have "\<dots> = sint ?y"
    using la ua lb ub unfolding sy by (intro signed_take_bit_int_eq_self) simp_all
  finally have "sint (ucast ?y :: 16 word) = sint ?y" .
  from this [unfolded sy] show ?thesis
    unfolding hadd_s16_def .
qed

lemma uint_hadd_u8: "uint (hadd_u8 a b) = (uint a + uint b) div 2"
proof -
  let ?x = "(ucast a :: 32 word) + ucast b"
  let ?y = "signed_drop_bit 1 ?x"
  have ua: "uint a < 256" and ub: "uint b < 256"
    using uint_lt2p [of a] uint_lt2p [of b] by simp_all
  have pa: "uint (ucast a :: 32 word) = uint a"
    by (rule uint_up_ucast) (simp add: is_up)
  have pb: "uint (ucast b :: 32 word) = uint b"
    by (rule uint_up_ucast) (simp add: is_up)
  have ux: "uint ?x = uint a + uint b"
    using ua ub by (simp add: uint_word_ariths pa pb)
  have "sint ?x = signed_take_bit 31 (uint a + uint b)"
    using ux by (simp add: sint_uint)
  also have "\<dots> = uint a + uint b"
  proof (rule signed_take_bit_int_eq_self)
    have "(0::int) \<le> uint a + uint b" by simp
    then show "- (2 ^ 31) \<le> uint a + uint b" by (rule order_trans [rotated]) simp
    show "uint a + uint b < 2 ^ 31" using ua ub by simp
  qed
  finally have sx: "sint ?x = uint a + uint b" .
  have sy: "sint ?y = (uint a + uint b) div 2"
    by (simp add: sint_signed_drop_bit_eq sx drop_bit_eq_div)
  have "uint ?y = take_bit 32 (sint ?y)"
    by (simp add: uint_sint)
  also have "\<dots> = (uint a + uint b) div 2"
    unfolding sy using ua ub by (intro take_bit_int_eq_self) simp_all
  finally have uy: "uint ?y = (uint a + uint b) div 2" .
  have "uint (ucast ?y :: 8 word) = take_bit 8 (uint ?y)"
    by (simp add: unsigned_ucast_eq)
  also have "\<dots> = (uint a + uint b) div 2"
    unfolding uy using ua ub by (intro take_bit_int_eq_self) simp_all
  finally show ?thesis
    unfolding hadd_u8_def .
qed

lemma uint_hadd_u16: "uint (hadd_u16 a b) = (uint a + uint b) div 2"
proof -
  let ?x = "(ucast a :: 32 word) + ucast b"
  let ?y = "signed_drop_bit 1 ?x"
  have ua: "uint a < 65536" and ub: "uint b < 65536"
    using uint_lt2p [of a] uint_lt2p [of b] by simp_all
  have pa: "uint (ucast a :: 32 word) = uint a"
    by (rule uint_up_ucast) (simp add: is_up)
  have pb: "uint (ucast b :: 32 word) = uint b"
    by (rule uint_up_ucast) (simp add: is_up)
  have ux: "uint ?x = uint a + uint b"
    using ua ub by (simp add: uint_word_ariths pa pb)
  have "sint ?x = signed_take_bit 31 (uint a + uint b)"
    using ux by (simp add: sint_uint)
  also have "\<dots> = uint a + uint b"
  proof (rule signed_take_bit_int_eq_self)
    have "(0::int) \<le> uint a + uint b" by simp
    then show "- (2 ^ 31) \<le> uint a + uint b" by (rule order_trans [rotated]) simp
    show "uint a + uint b < 2 ^ 31" using ua ub by simp
  qed
  finally have sx: "sint ?x = uint a + uint b" .
  have sy: "sint ?y = (uint a + uint b) div 2"
    by (simp add: sint_signed_drop_bit_eq sx drop_bit_eq_div)
  have "uint ?y = take_bit 32 (sint ?y)"
    by (simp add: uint_sint)
  also have "\<dots> = (uint a + uint b) div 2"
    unfolding sy using ua ub by (intro take_bit_int_eq_self) simp_all
  finally have uy: "uint ?y = (uint a + uint b) div 2" .
  have "uint (ucast ?y :: 16 word) = take_bit 16 (uint ?y)"
    by (simp add: unsigned_ucast_eq)
  also have "\<dots> = (uint a + uint b) div 2"
    unfolding uy using ua ub by (intro take_bit_int_eq_self) simp_all
  finally show ?thesis
    unfolding hadd_u16_def .
qed

text \<open>
  At the 32-bit element types the sum is formed in 32 bits: reduced modulo \<open>2 ^ 32\<close> for
  \<^verbatim>\<open>uint32_t\<close>, and to the two's complement range for \<^verbatim>\<open>int32_t\<close>.
\<close>

lemma sint_hadd_s32: "sint (hadd_s32 a b) = signed_take_bit 31 (sint a + sint b) div 2"
  by (simp add: hadd_s32_def sint_signed_drop_bit_eq sint_word_add drop_bit_eq_div)

lemma uint_hadd_u32: "uint (hadd_u32 a b) = ((uint a + uint b) mod 2 ^ 32) div 2"
proof -
  have "take_bit 32 (uint (a + b)) = uint (a + b)"
    using uint_lt2p [of "a + b"] by (intro take_bit_int_eq_self) simp_all
  then have "uint (hadd_u32 a b) = drop_bit 1 (uint (a + b))"
    by (simp add: hadd_u32_def unsigned_drop_bit_eq)
  also have "\<dots> = uint (a + b) div 2"
    by (simp add: drop_bit_eq_div)
  also have "uint (a + b) = (uint a + uint b) mod 2 ^ 32"
    by (simp add: uint_word_ariths)
  finally show ?thesis .
qed

lemma hadd_commute:
  "hadd_s8 a b = hadd_s8 b a" "hadd_s16 c d = hadd_s16 d c" "hadd_s32 x y = hadd_s32 y x"
  "hadd_u8 a b = hadd_u8 b a" "hadd_u16 c d = hadd_u16 d c" "hadd_u32 x y = hadd_u32 y x"
  by (simp_all add: hadd_s8_def hadd_s16_def hadd_s32_def hadd_u8_def hadd_u16_def
      hadd_u32_def add.commute)

section \<open>What the lane loop computes\<close>

lemma store_lane_N: "N (store_lane f i s) = N s"
  by (simp add: store_lane_def)

lemma store_lane_M: "M (store_lane f i s) = M s"
  by (simp add: store_lane_def)

lemma store_lane_length: "length (D (store_lane f i s)) = length (D s)"
  by (simp add: store_lane_def)

lemma for_lanes_N: "N (for_lanes k i (store_lane f) s) = N s"
  by (induction k arbitrary: i s) (simp_all add: store_lane_N)

lemma for_lanes_M: "M (for_lanes k i (store_lane f) s) = M s"
  by (induction k arbitrary: i s) (simp_all add: store_lane_M)

lemma for_lanes_length: "length (D (for_lanes k i (store_lane f) s)) = length (D s)"
  by (induction k arbitrary: i s) (simp_all add: store_lane_length)

lemma for_lanes_nth:
  "i + k \<le> length (D s) \<Longrightarrow> j < length (D s) \<Longrightarrow>
   D (for_lanes k i (store_lane f) s) ! j =
     (if i \<le> j \<and> j < i + k then f (N s ! j) (M s ! j) else D s ! j)"
proof (induction k arbitrary: i s)
  case 0
  then show ?case by auto
next
  case (Suc k)
  let ?t = "store_lane f i s"
  have len: "length (D ?t) = length (D s)" by (rule store_lane_length)
  have "D (for_lanes k (Suc i) (store_lane f) ?t) ! j =
      (if Suc i \<le> j \<and> j < Suc i + k then f (N ?t ! j) (M ?t ! j) else D ?t ! j)"
    using Suc.prems by (intro Suc.IH) (simp_all add: len)
  moreover have "D ?t ! j = (if j = i then f (N s ! i) (M s ! i) else D s ! j)"
    using Suc.prems by (simp add: store_lane_def nth_list_update)
  ultimately show ?case
    by (auto simp: store_lane_N store_lane_M)
qed

lemma run_N: "N (run f n a b) = a"
  by (simp add: run_def for_lanes_N enter_def)

lemma run_M: "M (run f n a b) = b"
  by (simp add: run_def for_lanes_M enter_def)

lemma run_length: "length (D (run f n a b)) = n"
  by (simp add: run_def for_lanes_length enter_def)

lemma run_nth: "i < n \<Longrightarrow> D (run f n a b) ! i = f (a ! i) (b ! i)"
  unfolding run_def
  by (subst for_lanes_nth) (simp_all add: enter_def)

text \<open>
  \<^verbatim>\<open>D\<close> is declared without an initialiser; the model enters the loop with lanes of 0.
  Whatever \<^verbatim>\<open>D\<close> holds on entry, the loop overwrites every lane of it.
\<close>

lemma run_any_initial_D:
  assumes "length d = n"
  shows "D (for_lanes n 0 (store_lane f) \<lparr>N = a, M = b, D = d\<rparr>) = D (run f n a b)"
proof (rule nth_equalityI)
  show "length (D (for_lanes n 0 (store_lane f) \<lparr>N = a, M = b, D = d\<rparr>)) =
      length (D (run f n a b))"
    by (simp add: for_lanes_length run_length assms)
next
  fix i
  assume "i < length (D (for_lanes n 0 (store_lane f) \<lparr>N = a, M = b, D = d\<rparr>))"
  then have "i < n"
    by (simp add: for_lanes_length assms)
  then show "D (for_lanes n 0 (store_lane f) \<lparr>N = a, M = b, D = d\<rparr>) ! i = D (run f n a b) ! i"
    by (simp add: for_lanes_nth run_nth assms)
qed

lemmas entry_defs =
  vhadd_s8_def vhadd_s16_def vhadd_s32_def vhadd_u8_def vhadd_u16_def vhadd_u32_def
  vhaddq_s8_def vhaddq_s16_def vhaddq_s32_def vhaddq_u8_def vhaddq_u16_def vhaddq_u32_def

lemma run_lane_independent: "lane_independent n (\<lambda>a b. D (run f n a b))"
  unfolding lane_independent_def by (simp add: run_nth)

lemma run_leaves_operands: "leaves_operands f n (\<lambda>a b. D (run f n a b))"
  unfolding leaves_operands_def by (simp add: run_N run_M run_length)

lemma run_same_lane_function:
  "same_lane_function n (\<lambda>a b. D (run f n a b)) n' (\<lambda>a b. D (run f n' a b))"
  unfolding same_lane_function_def by (simp add: run_nth)

lemma run_commutative:
  assumes "\<And>x y. f x y = f y x"
  shows "commutative_entry n (\<lambda>a b. D (run f n a b))"
  unfolding commutative_entry_def
proof (intro allI impI)
  fix a b :: "'a list"
  show "D (run f n a b) = D (run f n b a)"
    by (rule nth_equalityI) (simp_all add: run_length run_nth assms)
qed

section \<open>The dispatch entries, lane by lane\<close>

lemma entry_funs:
  "vhadd_s8 = (\<lambda>a b. D (run hadd_s8 8 a b))"
  "vhadd_s16 = (\<lambda>a b. D (run hadd_s16 4 a b))"
  "vhadd_s32 = (\<lambda>a b. D (run hadd_s32 2 a b))"
  "vhadd_u8 = (\<lambda>a b. D (run hadd_u8 8 a b))"
  "vhadd_u16 = (\<lambda>a b. D (run hadd_u16 4 a b))"
  "vhadd_u32 = (\<lambda>a b. D (run hadd_u32 2 a b))"
  "vhaddq_s8 = (\<lambda>a b. D (run hadd_s8 16 a b))"
  "vhaddq_s16 = (\<lambda>a b. D (run hadd_s16 8 a b))"
  "vhaddq_s32 = (\<lambda>a b. D (run hadd_s32 4 a b))"
  "vhaddq_u8 = (\<lambda>a b. D (run hadd_u8 16 a b))"
  "vhaddq_u16 = (\<lambda>a b. D (run hadd_u16 8 a b))"
  "vhaddq_u32 = (\<lambda>a b. D (run hadd_u32 4 a b))"
  by (simp_all add: fun_eq_iff entry_defs)

lemma vhadd_s8_nth: "i < 8 \<Longrightarrow> vhadd_s8 a b ! i = hadd_s8 (a ! i) (b ! i)"
  by (simp add: vhadd_s8_def run_nth)

lemma vhadd_u8_nth: "i < 8 \<Longrightarrow> vhadd_u8 a b ! i = hadd_u8 (a ! i) (b ! i)"
  by (simp add: vhadd_u8_def run_nth)

lemma vhadd_u32_nth: "i < 2 \<Longrightarrow> vhadd_u32 a b ! i = hadd_u32 (a ! i) (b ! i)"
  by (simp add: vhadd_u32_def run_nth)

lemma vhaddq_u32_nth: "i < 4 \<Longrightarrow> vhaddq_u32 a b ! i = hadd_u32 (a ! i) (b ! i)"
  by (simp add: vhaddq_u32_def run_nth)

text \<open>
  The entries of 8- and 16-bit lanes return, at every lane, the floor of half the exact
  sum of the two lane values (\<open>div\<close> on \<open>int\<close> rounds towards minus infinity).
\<close>

lemma promoted_entries_exact:
  "i < 8 \<Longrightarrow> sint (vhadd_s8 a b ! i) = (sint (a ! i) + sint (b ! i)) div 2"
  "j < 4 \<Longrightarrow> sint (vhadd_s16 c d ! j) = (sint (c ! j) + sint (d ! j)) div 2"
  "i < 8 \<Longrightarrow> uint (vhadd_u8 a b ! i) = (uint (a ! i) + uint (b ! i)) div 2"
  "j < 4 \<Longrightarrow> uint (vhadd_u16 c d ! j) = (uint (c ! j) + uint (d ! j)) div 2"
  "k < 16 \<Longrightarrow> sint (vhaddq_s8 a b ! k) = (sint (a ! k) + sint (b ! k)) div 2"
  "i < 8 \<Longrightarrow> sint (vhaddq_s16 c d ! i) = (sint (c ! i) + sint (d ! i)) div 2"
  "k < 16 \<Longrightarrow> uint (vhaddq_u8 a b ! k) = (uint (a ! k) + uint (b ! k)) div 2"
  "i < 8 \<Longrightarrow> uint (vhaddq_u16 c d ! i) = (uint (c ! i) + uint (d ! i)) div 2"
  by (simp_all add: entry_defs run_nth sint_hadd_s8 sint_hadd_s16 uint_hadd_u8 uint_hadd_u16)

text \<open>Reading the property definitions as rules.\<close>

lemma lane_independentD:
  "lane_independent n e \<Longrightarrow> length a = n \<Longrightarrow> length b = n \<Longrightarrow> length a' = n \<Longrightarrow>
   length b' = n \<Longrightarrow> i < n \<Longrightarrow> a ! i = a' ! i \<Longrightarrow> b ! i = b' ! i \<Longrightarrow>
   e a b ! i = e a' b' ! i"
  unfolding lane_independent_def by blast

lemma lane_independent_updD:
  assumes "lane_independent n e" and "length a = n" and "length b = n"
    and "i < n" and "j < n" and "i \<noteq> j"
  shows "e (a[j := v]) b ! i = e a b ! i" and "e a (b[j := v]) ! i = e a b ! i"
  using assms unfolding lane_independent_def by blast+

lemma leaves_operandsD:
  assumes "leaves_operands f n e" and "length a = n" and "length b = n"
  shows "N (run f n a b) = a" and "M (run f n a b) = b" and "length (e a b) = n"
  using assms unfolding leaves_operands_def by metis+

lemma same_lane_functionD:
  "same_lane_function n e n' e' \<Longrightarrow> length a = n \<Longrightarrow> length b = n \<Longrightarrow> length a' = n' \<Longrightarrow>
   length b' = n' \<Longrightarrow> i < n \<Longrightarrow> j < n' \<Longrightarrow> a ! i = a' ! j \<Longrightarrow> b ! i = b' ! j \<Longrightarrow>
   e a b ! i = e' a' b' ! j"
  unfolding same_lane_function_def by blast

lemma commutative_entryD:
  "commutative_entry n e \<Longrightarrow> length a = n \<Longrightarrow> length b = n \<Longrightarrow> e a b = e b a"
  by (simp add: commutative_entry_def)

section \<open>Where the calls return\<close>

text \<open>The promoted sums of 8- and 16-bit operands stay within \<^verbatim>\<open>int\<close>.\<close>

lemma int_add_Some: "int_add x y = Some z \<Longrightarrow> z = x + y"
  by (simp add: int_add_def split: if_splits)

lemma int_add_s8: "int_add (scast a) (scast b) = Some (scast a + scast b)" for a b :: int8_t
proof -
  have "- 128 \<le> sint a" "sint a < 128" "- 128 \<le> sint b" "sint b < 128"
    using sint_ge [of a] sint_lt [of a] sint_ge [of b] sint_lt [of b] by simp_all
  moreover have "sint (scast a :: 32 word) = sint a" "sint (scast b :: 32 word) = sint b"
    by (rule sint_up_scast, simp add: is_up)+
  ultimately show ?thesis
    by (simp add: int_add_def)
qed

lemma int_add_s16: "int_add (scast a) (scast b) = Some (scast a + scast b)" for a b :: int16_t
proof -
  have "- 32768 \<le> sint a" "sint a < 32768" "- 32768 \<le> sint b" "sint b < 32768"
    using sint_ge [of a] sint_lt [of a] sint_ge [of b] sint_lt [of b] by simp_all
  moreover have "sint (scast a :: 32 word) = sint a" "sint (scast b :: 32 word) = sint b"
    by (rule sint_up_scast, simp add: is_up)+
  ultimately show ?thesis
    by (simp add: int_add_def)
qed

lemma sint_ucast_u8: "sint (ucast a :: 32 word) = uint a" for a :: uint8_t
proof -
  have "uint (ucast a :: 32 word) = uint a"
    by (rule uint_up_ucast) (simp add: is_up)
  then have "sint (ucast a :: 32 word) = signed_take_bit 31 (uint a)"
    by (simp add: sint_uint)
  also have "\<dots> = uint a"
  proof (rule signed_take_bit_int_eq_self)
    have "(0::int) \<le> uint a" by simp
    then show "- (2 ^ 31) \<le> uint a" by (rule order_trans [rotated]) simp
    show "uint a < 2 ^ 31" using uint_lt2p [of a] by simp
  qed
  finally show ?thesis .
qed

lemma sint_ucast_u16: "sint (ucast a :: 32 word) = uint a" for a :: uint16_t
proof -
  have "uint (ucast a :: 32 word) = uint a"
    by (rule uint_up_ucast) (simp add: is_up)
  then have "sint (ucast a :: 32 word) = signed_take_bit 31 (uint a)"
    by (simp add: sint_uint)
  also have "\<dots> = uint a"
  proof (rule signed_take_bit_int_eq_self)
    have "(0::int) \<le> uint a" by simp
    then show "- (2 ^ 31) \<le> uint a" by (rule order_trans [rotated]) simp
    show "uint a < 2 ^ 31" using uint_lt2p [of a] by simp
  qed
  finally show ?thesis .
qed

lemma int_add_u8: "int_add (ucast a) (ucast b) = Some (ucast a + ucast b)" for a b :: uint8_t
proof -
  have "uint a < 256" "uint b < 256"
    using uint_lt2p [of a] uint_lt2p [of b] by simp_all
  moreover have "(0::int) \<le> uint a + uint b" by simp
  ultimately have "- 2147483648 \<le> uint a + uint b \<and> uint a + uint b \<le> 2147483647"
    by linarith
  then show ?thesis
    by (simp add: int_add_def sint_ucast_u8)
qed

lemma int_add_u16: "int_add (ucast a) (ucast b) = Some (ucast a + ucast b)" for a b :: uint16_t
proof -
  have "uint a < 65536" "uint b < 65536"
    using uint_lt2p [of a] uint_lt2p [of b] by simp_all
  moreover have "(0::int) \<le> uint a + uint b" by simp
  ultimately have "- 2147483648 \<le> uint a + uint b \<and> uint a + uint b \<le> 2147483647"
    by linarith
  then show ?thesis
    by (simp add: int_add_def sint_ucast_u16)
qed

lemma hadd_checked_total:
  "hadd_s8_checked a b = Some (hadd_s8 a b)"
  "hadd_s16_checked c d = Some (hadd_s16 c d)"
  "hadd_u8_checked a b = Some (hadd_u8 a b)"
  "hadd_u16_checked c d = Some (hadd_u16 c d)"
  "hadd_u32_checked x y = Some (hadd_u32 x y)"
  by (simp_all add: hadd_s8_checked_def hadd_s16_checked_def hadd_u8_checked_def
      hadd_u16_checked_def hadd_u32_checked_def hadd_s8_def hadd_s16_def hadd_u8_def
      hadd_u16_def hadd_u32_def int_add_s8 int_add_s16 int_add_u8 int_add_u16)

lemma hadd_s32_checked_eq:
  "hadd_s32_checked a b =
     (if - 2147483648 \<le> sint a + sint b \<and> sint a + sint b \<le> 2147483647
      then Some (hadd_s32 a b) else None)"
  by (simp add: hadd_s32_checked_def int_add_def hadd_s32_def)

text \<open>
  The checked loop against the loop: where every lane expression is defined the call
  returns what \<open>run\<close> computes, and whatever a call returns is what \<open>run\<close> computes.
\<close>

lemma for_lanes_checked_total:
  assumes g: "\<And>x y. g x y = Some (f x y)"
  shows "i + k \<le> length (N s) \<Longrightarrow> i + k \<le> length (M s) \<Longrightarrow> i + k \<le> length (D s) \<Longrightarrow>
    for_lanes_checked k i (store_lane_checked g) s = Some (for_lanes k i (store_lane f) s)"
proof (induction k arbitrary: i s)
  case 0
  then show ?case by simp
next
  case (Suc k)
  have step: "store_lane_checked g i s = Some (store_lane f i s)"
    using Suc.prems by (simp add: store_lane_checked_def store_lane_def g)
  have "for_lanes_checked k (Suc i) (store_lane_checked g) (store_lane f i s) =
      Some (for_lanes k (Suc i) (store_lane f) (store_lane f i s))"
    using Suc.prems by (intro Suc.IH) (simp_all add: store_lane_N store_lane_M store_lane_length)
  then show ?case
    by (simp add: step)
qed

lemma call_total:
  assumes "\<And>x y. g x y = Some (f x y)" and "length a = n" and "length b = n"
  shows "call g n a b = Some (D (run f n a b))"
  unfolding call_def run_def
  by (subst for_lanes_checked_total [where f = f]) (simp_all add: assms enter_def)

lemma for_lanes_checked_refines:
  assumes g: "\<And>x y z. g x y = Some z \<Longrightarrow> z = f x y"
  shows "for_lanes_checked k i (store_lane_checked g) s = Some t \<Longrightarrow>
    t = for_lanes k i (store_lane f) s"
proof (induction k arbitrary: i s)
  case 0
  then show ?case by simp
next
  case (Suc k)
  from Suc.prems obtain u where u: "store_lane_checked g i s = Some u"
    and rest: "for_lanes_checked k (Suc i) (store_lane_checked g) u = Some t"
    by (auto split: option.splits)
  from u have "u = store_lane f i s"
    by (auto simp: store_lane_checked_def store_lane_def split: if_splits dest: g)
  with Suc.IH [OF rest] show ?case by simp
qed

lemma call_refines:
  assumes "\<And>x y z. g x y = Some z \<Longrightarrow> z = f x y" and "call g n a b = Some v"
  shows "v = D (run f n a b)"
proof -
  from assms(2) obtain t
    where t: "for_lanes_checked n 0 (store_lane_checked g) (enter n a b) = Some t"
      and v: "v = D t"
    by (auto simp: call_def)
  have "t = for_lanes n 0 (store_lane f) (enter n a b)"
    using assms(1) t by (rule for_lanes_checked_refines)
  with v show ?thesis
    by (simp add: run_def)
qed

lemma hadd_s32_checked_Some: "hadd_s32_checked a b = Some z \<Longrightarrow> z = hadd_s32 a b"
  by (simp add: hadd_s32_checked_eq split: if_splits)

text \<open>
  The ten entries of 8-bit, 16-bit and \<^verbatim>\<open>uint32_t\<close> lanes return on all operands of their
  shape, with the lanes computed above: the promoted sum never leaves the range of
  \<^verbatim>\<open>int\<close>, and the unsigned sum is defined everywhere.
\<close>

lemma promoted_and_unsigned_entries_return:
  "length a = 8 \<Longrightarrow> length b = 8 \<Longrightarrow> vhadd_s8_checked a b = Some (vhadd_s8 a b)"
  "length c = 4 \<Longrightarrow> length d = 4 \<Longrightarrow> vhadd_s16_checked c d = Some (vhadd_s16 c d)"
  "length a = 8 \<Longrightarrow> length b = 8 \<Longrightarrow> vhadd_u8_checked a b = Some (vhadd_u8 a b)"
  "length c = 4 \<Longrightarrow> length d = 4 \<Longrightarrow> vhadd_u16_checked c d = Some (vhadd_u16 c d)"
  "length x = 2 \<Longrightarrow> length y = 2 \<Longrightarrow> vhadd_u32_checked x y = Some (vhadd_u32 x y)"
  "length a = 16 \<Longrightarrow> length b = 16 \<Longrightarrow> vhaddq_s8_checked a b = Some (vhaddq_s8 a b)"
  "length c = 8 \<Longrightarrow> length d = 8 \<Longrightarrow> vhaddq_s16_checked c d = Some (vhaddq_s16 c d)"
  "length a = 16 \<Longrightarrow> length b = 16 \<Longrightarrow> vhaddq_u8_checked a b = Some (vhaddq_u8 a b)"
  "length c = 8 \<Longrightarrow> length d = 8 \<Longrightarrow> vhaddq_u16_checked c d = Some (vhaddq_u16 c d)"
  "length x = 4 \<Longrightarrow> length y = 4 \<Longrightarrow> vhaddq_u32_checked x y = Some (vhaddq_u32 x y)"
  by (simp_all add: vhadd_s8_checked_def vhadd_s16_checked_def vhadd_u8_checked_def
      vhadd_u16_checked_def vhadd_u32_checked_def vhaddq_s8_checked_def vhaddq_s16_checked_def
      vhaddq_u8_checked_def vhaddq_u16_checked_def vhaddq_u32_checked_def entry_defs
      call_total hadd_checked_total)

text \<open>Where the two entries of \<^verbatim>\<open>int32_t\<close> lanes return, they return the lanes computed above.\<close>

lemma s32_entries_refine:
  "vhadd_s32_checked a b = Some v \<Longrightarrow> v = vhadd_s32 a b"
  "vhaddq_s32_checked c d = Some w \<Longrightarrow> w = vhaddq_s32 c d"
  by (simp_all add: vhadd_s32_checked_def vhaddq_s32_checked_def entry_defs
      call_refines [where f = hadd_s32, OF hadd_s32_checked_Some])

section \<open>The claims\<close>

text \<open>
  C1. The specification asks every entry to return, at every lane, \<open>(a + b) >> 1\<close> with the
  sum formed in at least one bit more than the lane has, the 32-bit entries included.
  The four 32-bit entries form the sum in 32 bits: with every lane of both operands at
  the largest value of the lane type, \<^verbatim>\<open>vhadd_u32\<close> and \<^verbatim>\<open>vhaddq_u32\<close> return \<open>2 ^ 31 - 1\<close>
  where the exact sum halved is \<open>2 ^ 32 - 1\<close>, and \<^verbatim>\<open>vhadd_s32\<close> and \<^verbatim>\<open>vhaddq_s32\<close> return
  \<open>- 1\<close> where it is \<open>2 ^ 31 - 1\<close>. (The 8- and 16-bit entries do return the halved exact
  sum: \<open>promoted_entries_exact\<close>.)
\<close>

theorem vhadd_32bit_sum_not_widened:
  "uint (vhadd_u32 [4294967295, 4294967295] [4294967295, 4294967295] ! 0) = 2147483647 \<and>
   uint (vhadd_u32 [4294967295, 4294967295] [4294967295, 4294967295] ! 0)
     \<noteq> (uint (4294967295 :: uint32_t) + uint (4294967295 :: uint32_t)) div 2 \<and>
   uint (vhaddq_u32 [4294967295, 4294967295, 4294967295, 4294967295]
           [4294967295, 4294967295, 4294967295, 4294967295] ! 3) = 2147483647 \<and>
   uint (vhaddq_u32 [4294967295, 4294967295, 4294967295, 4294967295]
           [4294967295, 4294967295, 4294967295, 4294967295] ! 3)
     \<noteq> (uint (4294967295 :: uint32_t) + uint (4294967295 :: uint32_t)) div 2 \<and>
   sint (vhadd_s32 [2147483647, 2147483647] [2147483647, 2147483647] ! 1) = - 1 \<and>
   sint (vhadd_s32 [2147483647, 2147483647] [2147483647, 2147483647] ! 1)
     \<noteq> (sint (2147483647 :: int32_t) + sint (2147483647 :: int32_t)) div 2 \<and>
   sint (vhaddq_s32 [2147483647, 2147483647, 2147483647, 2147483647]
           [2147483647, 2147483647, 2147483647, 2147483647] ! 2) = - 1 \<and>
   sint (vhaddq_s32 [2147483647, 2147483647, 2147483647, 2147483647]
           [2147483647, 2147483647, 2147483647, 2147483647] ! 2)
     \<noteq> (sint (2147483647 :: int32_t) + sint (2147483647 :: int32_t)) div 2"
  by code_simp

text \<open>
  C2. The specification asks every entry to be total on operands of its shape with lanes
  in the domain, and to return lanes in the domain. The ten entries of 8-bit, 16-bit and
  \<^verbatim>\<open>uint32_t\<close> lanes are (\<open>promoted_and_unsigned_entries_return\<close>). \<^verbatim>\<open>vhadd_s32\<close> and
  \<^verbatim>\<open>vhaddq_s32\<close> are not: with every lane of both operands 2147483647, a value of the
  domain of \<^verbatim>\<open>int32_t\<close>, the sum \<^verbatim>\<open>N[i] + M[i]\<close> leaves the range of \<^verbatim>\<open>int\<close>, and the source
  has no defined result.
\<close>

theorem vhadd_s32_undefined_on_domain:
  "vhadd_s32_checked [2147483647, 2147483647] [2147483647, 2147483647] = None \<and>
   vhaddq_s32_checked [2147483647, 2147483647, 2147483647, 2147483647]
     [2147483647, 2147483647, 2147483647, 2147483647] = None"
  by code_simp

text \<open>
  C3. At any lane of \<^verbatim>\<open>vhadd_s8\<close>, the values \<open>a = 1\<close>, \<open>b = 0\<close> give 0 (not 1) and the
  values \<open>a = - 1\<close>, \<open>b = 0\<close> give \<open>- 1\<close>; at every lane the result is the floor of half the
  sum, which is never above the exact half: the entry truncates towards minus infinity
  and does not round to nearest.
\<close>

theorem vhadd_s8_truncates_down:
  assumes "length a = 8" and "length b = 8" and "i < 8"
  shows "(a ! i = 1 \<and> b ! i = 0 \<longrightarrow> vhadd_s8 a b ! i = 0 \<and> vhadd_s8 a b ! i \<noteq> 1) \<and>
         (a ! i = - 1 \<and> b ! i = 0 \<longrightarrow> vhadd_s8 a b ! i = - 1) \<and>
         sint (vhadd_s8 a b ! i) = (sint (a ! i) + sint (b ! i)) div 2 \<and>
         2 * sint (vhadd_s8 a b ! i) \<le> sint (a ! i) + sint (b ! i)"
proof -
  have one: "hadd_s8 1 0 = 0" and minus_one: "hadd_s8 (- 1) 0 = - 1"
    by code_simp+
  have floor: "sint (vhadd_s8 a b ! i) = (sint (a ! i) + sint (b ! i)) div 2"
    using assms(3) by (rule promoted_entries_exact)
  have "2 * ((sint (a ! i) + sint (b ! i)) div 2) \<le> sint (a ! i) + sint (b ! i)"
    by simp
  with floor show ?thesis
    using assms(3) by (simp add: vhadd_s8_nth one minus_one)
qed

theorem vhadd_s8_truncates_down_witness:
  "vhadd_s8 [1, - 1, 5, - 7, 0, 127, - 128, 3] [0, 0, - 2, 2, 0, 126, - 127, 4] ! 0 = 0 \<and>
   vhadd_s8 [1, - 1, 5, - 7, 0, 127, - 128, 3] [0, 0, - 2, 2, 0, 126, - 127, 4] ! 1 = - 1 \<and>
   sint (vhadd_s8 [1, - 1, 5, - 7, 0, 127, - 128, 3] [0, 0, - 2, 2, 0, 126, - 127, 4] ! 3) = - 3"
  using
    vhadd_s8_truncates_down
      [of "[1, - 1, 5, - 7, 0, 127, - 128, 3]" "[0, 0, - 2, 2, 0, 126, - 127, 4]" 0]
    vhadd_s8_truncates_down
      [of "[1, - 1, 5, - 7, 0, 127, - 128, 3]" "[0, 0, - 2, 2, 0, 126, - 127, 4]" 1]
    vhadd_s8_truncates_down
      [of "[1, - 1, 5, - 7, 0, 127, - 128, 3]" "[0, 0, - 2, 2, 0, 126, - 127, 4]" 3]
  by simp

text \<open>
  C4. At any lane of \<^verbatim>\<open>vhadd_u8\<close>, the values \<open>a = 255\<close>, \<open>b = 255\<close> give 255, the sum 510
  shifted right by one, and not the 127 of a sum wrapped to 8 bits; at every lane the
  result is half the exact sum.
\<close>

theorem vhadd_u8_no_intermediate_wrap:
  assumes "length a = 8" and "length b = 8" and "i < 8"
  shows "(a ! i = 255 \<and> b ! i = 255 \<longrightarrow> vhadd_u8 a b ! i = 255 \<and> vhadd_u8 a b ! i \<noteq> 127) \<and>
         uint (vhadd_u8 a b ! i) = (uint (a ! i) + uint (b ! i)) div 2"
proof -
  have top: "hadd_u8 255 255 = 255"
    by code_simp
  have "uint (vhadd_u8 a b ! i) = (uint (a ! i) + uint (b ! i)) div 2"
    using assms(3) by (rule promoted_entries_exact)
  then show ?thesis
    using assms(3) by (simp add: vhadd_u8_nth top)
qed

theorem vhadd_u8_no_intermediate_wrap_witness:
  "vhadd_u8 [7, 0, 255, 200, 1, 2, 3, 4] [9, 0, 255, 100, 1, 2, 3, 5] ! 2 = 255 \<and>
   uint (vhadd_u8 [7, 0, 255, 200, 1, 2, 3, 4] [9, 0, 255, 100, 1, 2, 3, 5] ! 3) = 150"
  using
    vhadd_u8_no_intermediate_wrap
      [of "[7, 0, 255, 200, 1, 2, 3, 4]" "[9, 0, 255, 100, 1, 2, 3, 5]" 2]
    vhadd_u8_no_intermediate_wrap
      [of "[7, 0, 255, 200, 1, 2, 3, 4]" "[9, 0, 255, 100, 1, 2, 3, 5]" 3]
  by simp

text \<open>
  C5. \<^verbatim>\<open>vhaddq_s16\<close> applied to eight lanes of 2 and eight lanes of 4 returns eight lanes
  of 3.
\<close>

theorem vhaddq_s16_width_scaling:
  "vhaddq_s16 [2, 2, 2, 2, 2, 2, 2, 2] [4, 4, 4, 4, 4, 4, 4, 4] = [3, 3, 3, 3, 3, 3, 3, 3]"
  by code_simp

text \<open>
  C6 (amended). Every entry is lane independent: the result at lane \<open>i\<close> is fixed by the
  two operands' values at lane \<open>i\<close>. Two calls whose operands agree at lane \<open>i\<close>,
  whatever their other lanes hold, return the same value at lane \<open>i\<close>; and overwriting
  one lane of one operand changes at most that one result lane: every other result lane
  keeps its value.
\<close>

theorem vhadd_lane_independent:
  "lane_independent 8 vhadd_s8 \<and>
   lane_independent 4 vhadd_s16 \<and>
   lane_independent 2 vhadd_s32 \<and>
   lane_independent 8 vhadd_u8 \<and>
   lane_independent 4 vhadd_u16 \<and>
   lane_independent 2 vhadd_u32 \<and>
   lane_independent 16 vhaddq_s8 \<and>
   lane_independent 8 vhaddq_s16 \<and>
   lane_independent 4 vhaddq_s32 \<and>
   lane_independent 16 vhaddq_u8 \<and>
   lane_independent 8 vhaddq_u16 \<and>
   lane_independent 4 vhaddq_u32"
  unfolding entry_funs by (intro conjI run_lane_independent)

theorem vhadd_lane_independent_witness:
  "vhadd_s8 [127, - 128, 3, 4, 5, 6, 7, 8]
     [127, - 128, - 5, - 4, - 3, - 2, - 1, 0] ! 0 =
   vhadd_s8 [127, 12, 19, 26, 33, 40, 47, 54]
     [127, 14, 19, 24, 29, 34, 39, 44] ! 0 \<and>
   vhadd_s8 ([127, - 128, 3, 4, 5, 6, 7, 8][1 := 77])
     [127, - 128, - 5, - 4, - 3, - 2, - 1, 0] ! 0 =
   vhadd_s8 [127, - 128, 3, 4, 5, 6, 7, 8]
     [127, - 128, - 5, - 4, - 3, - 2, - 1, 0] ! 0 \<and>
   vhadd_s16 [32767, - 32768, 3, 4]
     [32767, - 32768, - 1, 0] ! 1 =
   vhadd_s16 [5, - 32768, 19, 26]
     [9, - 32768, 19, 24] ! 1 \<and>
   vhadd_s16 ([32767, - 32768, 3, 4][2 := 77])
     [32767, - 32768, - 1, 0] ! 1 =
   vhadd_s16 [32767, - 32768, 3, 4]
     [32767, - 32768, - 1, 0] ! 1 \<and>
   vhadd_s32 [2147483647, - 2147483648]
     [2147483647, - 2147483648] ! 0 =
   vhadd_s32 [2147483647, 12]
     [2147483647, 14] ! 0 \<and>
   vhadd_s32 ([2147483647, - 2147483648][1 := 77])
     [2147483647, - 2147483648] ! 0 =
   vhadd_s32 [2147483647, - 2147483648]
     [2147483647, - 2147483648] ! 0 \<and>
   vhadd_u8 [255, 0, 3, 4, 5, 6, 7, 8]
     [255, 0, 11, 9, 7, 5, 3, 1] ! 3 =
   vhadd_u8 [5, 12, 19, 4, 33, 40, 47, 54]
     [9, 14, 19, 9, 29, 34, 39, 44] ! 3 \<and>
   vhadd_u8 ([255, 0, 3, 4, 5, 6, 7, 8][4 := 77])
     [255, 0, 11, 9, 7, 5, 3, 1] ! 3 =
   vhadd_u8 [255, 0, 3, 4, 5, 6, 7, 8]
     [255, 0, 11, 9, 7, 5, 3, 1] ! 3 \<and>
   vhadd_u16 [65535, 0, 3, 4]
     [65535, 0, 3, 1] ! 0 =
   vhadd_u16 [65535, 12, 19, 26]
     [65535, 14, 19, 24] ! 0 \<and>
   vhadd_u16 ([65535, 0, 3, 4][1 := 77])
     [65535, 0, 3, 1] ! 0 =
   vhadd_u16 [65535, 0, 3, 4]
     [65535, 0, 3, 1] ! 0 \<and>
   vhadd_u32 [4294967295, 0]
     [4294967295, 0] ! 1 =
   vhadd_u32 [5, 0]
     [9, 0] ! 1 \<and>
   vhadd_u32 ([4294967295, 0][0 := 77])
     [4294967295, 0] ! 1 =
   vhadd_u32 [4294967295, 0]
     [4294967295, 0] ! 1 \<and>
   vhaddq_s8 [127, - 128, 3, 4, 5, 6, 7, 8, 9, 10, 11, 12, 13, 14, 15, 16]
     [127, - 128, - 13, - 12, - 11, - 10, - 9, - 8, - 7, - 6, - 5, - 4, - 3, - 2, - 1, 0] ! 6 =
   vhaddq_s8 [5, 12, 19, 26, 33, 40, 7, 54, 61, 68, 75, 82, 89, 6, 13, 20]
     [9, 14, 19, 24, 29, 34, - 9, 44, 49, 54, 59, 64, 69, 74, 79, 84] ! 6 \<and>
   vhaddq_s8 ([127, - 128, 3, 4, 5, 6, 7, 8, 9, 10, 11, 12, 13, 14, 15, 16][7 := 77])
     [127, - 128, - 13, - 12, - 11, - 10, - 9, - 8, - 7, - 6, - 5, - 4, - 3, - 2, - 1, 0] ! 6 =
   vhaddq_s8 [127, - 128, 3, 4, 5, 6, 7, 8, 9, 10, 11, 12, 13, 14, 15, 16]
     [127, - 128, - 13, - 12, - 11, - 10, - 9, - 8, - 7, - 6, - 5, - 4, - 3, - 2, - 1, 0] ! 6 \<and>
   vhaddq_s16 [32767, - 32768, 3, 4, 5, 6, 7, 8]
     [32767, - 32768, - 5, - 4, - 3, - 2, - 1, 0] ! 7 =
   vhaddq_s16 [5, 12, 19, 26, 33, 40, 47, 8]
     [9, 14, 19, 24, 29, 34, 39, 0] ! 7 \<and>
   vhaddq_s16 ([32767, - 32768, 3, 4, 5, 6, 7, 8][0 := 77])
     [32767, - 32768, - 5, - 4, - 3, - 2, - 1, 0] ! 7 =
   vhaddq_s16 [32767, - 32768, 3, 4, 5, 6, 7, 8]
     [32767, - 32768, - 5, - 4, - 3, - 2, - 1, 0] ! 7 \<and>
   vhaddq_s32 [2147483647, - 2147483648, 3, 4]
     [2147483647, - 2147483648, - 1, 0] ! 0 =
   vhaddq_s32 [2147483647, 12, 19, 26]
     [2147483647, 14, 19, 24] ! 0 \<and>
   vhaddq_s32 ([2147483647, - 2147483648, 3, 4][1 := 77])
     [2147483647, - 2147483648, - 1, 0] ! 0 =
   vhaddq_s32 [2147483647, - 2147483648, 3, 4]
     [2147483647, - 2147483648, - 1, 0] ! 0 \<and>
   vhaddq_u8 [255, 0, 3, 4, 5, 6, 7, 8, 9, 10, 11, 12, 13, 14, 15, 16]
     [255, 0, 27, 25, 23, 21, 19, 17, 15, 13, 11, 9, 7, 5, 3, 1] ! 9 =
   vhaddq_u8 [5, 12, 19, 26, 33, 40, 47, 54, 61, 10, 75, 82, 89, 6, 13, 20]
     [9, 14, 19, 24, 29, 34, 39, 44, 49, 13, 59, 64, 69, 74, 79, 84] ! 9 \<and>
   vhaddq_u8 ([255, 0, 3, 4, 5, 6, 7, 8, 9, 10, 11, 12, 13, 14, 15, 16][10 := 77])
     [255, 0, 27, 25, 23, 21, 19, 17, 15, 13, 11, 9, 7, 5, 3, 1] ! 9 =
   vhaddq_u8 [255, 0, 3, 4, 5, 6, 7, 8, 9, 10, 11, 12, 13, 14, 15, 16]
     [255, 0, 27, 25, 23, 21, 19, 17, 15, 13, 11, 9, 7, 5, 3, 1] ! 9 \<and>
   vhaddq_u16 [65535, 0, 3, 4, 5, 6, 7, 8]
     [65535, 0, 11, 9, 7, 5, 3, 1] ! 2 =
   vhaddq_u16 [5, 12, 3, 26, 33, 40, 47, 54]
     [9, 14, 11, 24, 29, 34, 39, 44] ! 2 \<and>
   vhaddq_u16 ([65535, 0, 3, 4, 5, 6, 7, 8][3 := 77])
     [65535, 0, 11, 9, 7, 5, 3, 1] ! 2 =
   vhaddq_u16 [65535, 0, 3, 4, 5, 6, 7, 8]
     [65535, 0, 11, 9, 7, 5, 3, 1] ! 2 \<and>
   vhaddq_u32 [4294967295, 0, 3, 4]
     [4294967295, 0, 3, 1] ! 3 =
   vhaddq_u32 [5, 12, 19, 4]
     [9, 14, 19, 1] ! 3 \<and>
   vhaddq_u32 ([4294967295, 0, 3, 4][0 := 77])
     [4294967295, 0, 3, 1] ! 3 =
   vhaddq_u32 [4294967295, 0, 3, 4]
     [4294967295, 0, 3, 1] ! 3"
  by (intro conjI; (rule lane_independent_updD | rule lane_independentD),
      use vhadd_lane_independent in blast, simp_all)

text \<open>
  C6 as stated has the overwritten lane always change. It need not: overwriting lane 0
  of an operand of \<^verbatim>\<open>vhadd_s8\<close> whose lanes are all 0 with 1, against lanes of 0, changes the
  operand and no lane of the result, since \<open>(1 + 0) >> 1 = 0\<close>.
\<close>

theorem vhadd_s8_overwrite_changes_no_lane:
  "[0, 0, 0, 0, 0, 0, 0, 0][0 := 1] \<noteq> ([0, 0, 0, 0, 0, 0, 0, 0] :: int8x8_t) \<and>
   vhadd_s8 ([0, 0, 0, 0, 0, 0, 0, 0][0 := 1]) [0, 0, 0, 0, 0, 0, 0, 0] =
   vhadd_s8 [0, 0, 0, 0, 0, 0, 0, 0] [0, 0, 0, 0, 0, 0, 0, 0]"
  by code_simp

text \<open>
  C7. No entry writes to its operands: each entry is the call that runs the lane loop
  and returns \<^verbatim>\<open>D\<close>, and when that call returns, its operands \<^verbatim>\<open>N\<close> and \<^verbatim>\<open>M\<close>, which are
  copies of the caller's vectors, hold the lane values that were passed in. The
  vector returned is the local \<^verbatim>\<open>D\<close>, of the operands' shape.
\<close>

theorem vhadd_leaves_operands:
  "leaves_operands hadd_s8 8 vhadd_s8 \<and>
   leaves_operands hadd_s16 4 vhadd_s16 \<and>
   leaves_operands hadd_s32 2 vhadd_s32 \<and>
   leaves_operands hadd_u8 8 vhadd_u8 \<and>
   leaves_operands hadd_u16 4 vhadd_u16 \<and>
   leaves_operands hadd_u32 2 vhadd_u32 \<and>
   leaves_operands hadd_s8 16 vhaddq_s8 \<and>
   leaves_operands hadd_s16 8 vhaddq_s16 \<and>
   leaves_operands hadd_s32 4 vhaddq_s32 \<and>
   leaves_operands hadd_u8 16 vhaddq_u8 \<and>
   leaves_operands hadd_u16 8 vhaddq_u16 \<and>
   leaves_operands hadd_u32 4 vhaddq_u32"
  unfolding entry_funs by (intro conjI run_leaves_operands)

theorem vhadd_leaves_operands_witness:
  "N (run hadd_s8 8 [127, - 128, 3, 4, 5, 6, 7, 8]
        [0, - 1, - 2, - 3, - 4, - 5, - 128, 127]) =
     [127, - 128, 3, 4, 5, 6, 7, 8] \<and>
   M (run hadd_s8 8 [127, - 128, 3, 4, 5, 6, 7, 8]
        [0, - 1, - 2, - 3, - 4, - 5, - 128, 127]) =
     [0, - 1, - 2, - 3, - 4, - 5, - 128, 127] \<and>
   length (vhadd_s8 [127, - 128, 3, 4, 5, 6, 7, 8]
     [0, - 1, - 2, - 3, - 4, - 5, - 128, 127]) = 8 \<and>
   length (vhadd_s16 [32767, - 32768, 3, 4]
     [0, - 1, - 32768, 32767]) = 4 \<and>
   length (vhadd_s32 [2147483647, - 2147483648]
     [- 2147483648, 2147483647]) = 2 \<and>
   length (vhadd_u8 [255, 0, 3, 4, 5, 6, 7, 8]
     [1, 3, 5, 7, 9, 11, 0, 255]) = 8 \<and>
   length (vhadd_u16 [65535, 0, 3, 4]
     [1, 3, 0, 65535]) = 4 \<and>
   N (run hadd_u32 2 [4294967295, 0]
        [0, 4294967295]) =
     [4294967295, 0] \<and>
   M (run hadd_u32 2 [4294967295, 0]
        [0, 4294967295]) =
     [0, 4294967295] \<and>
   length (vhadd_u32 [4294967295, 0]
     [0, 4294967295]) = 2 \<and>
   length (vhaddq_s8 [127, - 128, 3, 4, 5, 6, 7, 8, 9, 10, 11, 12, 13, 14, 15, 16]
     [0, - 1, - 2, - 3, - 4, - 5, - 6, - 7, - 8, - 9, - 10, - 11, - 12, - 13, - 128, 127]) = 16 \<and>
   length (vhaddq_s16 [32767, - 32768, 3, 4, 5, 6, 7, 8]
     [0, - 1, - 2, - 3, - 4, - 5, - 32768, 32767]) = 8 \<and>
   length (vhaddq_s32 [2147483647, - 2147483648, 3, 4]
     [0, - 1, - 2147483648, 2147483647]) = 4 \<and>
   N (run hadd_u8 16 [255, 0, 3, 4, 5, 6, 7, 8, 9, 10, 11, 12, 13, 14, 15, 16]
        [1, 3, 5, 7, 9, 11, 13, 15, 17, 19, 21, 23, 25, 27, 0, 255]) =
     [255, 0, 3, 4, 5, 6, 7, 8, 9, 10, 11, 12, 13, 14, 15, 16] \<and>
   M (run hadd_u8 16 [255, 0, 3, 4, 5, 6, 7, 8, 9, 10, 11, 12, 13, 14, 15, 16]
        [1, 3, 5, 7, 9, 11, 13, 15, 17, 19, 21, 23, 25, 27, 0, 255]) =
     [1, 3, 5, 7, 9, 11, 13, 15, 17, 19, 21, 23, 25, 27, 0, 255] \<and>
   length (vhaddq_u8 [255, 0, 3, 4, 5, 6, 7, 8, 9, 10, 11, 12, 13, 14, 15, 16]
     [1, 3, 5, 7, 9, 11, 13, 15, 17, 19, 21, 23, 25, 27, 0, 255]) = 16 \<and>
   length (vhaddq_u16 [65535, 0, 3, 4, 5, 6, 7, 8]
     [1, 3, 5, 7, 9, 11, 0, 65535]) = 8 \<and>
   length (vhaddq_u32 [4294967295, 0, 3, 4]
     [1, 3, 0, 4294967295]) = 4"
  by (intro conjI; rule leaves_operandsD, use vhadd_leaves_operands in blast, simp_all)

text \<open>
  C8. At every lane of \<^verbatim>\<open>vhadd_u32\<close> and of \<^verbatim>\<open>vhaddq_u32\<close> the result is the sum of the two
  lane values reduced modulo \<open>2 ^ 32\<close>, then halved by the logical shift. With both lane
  values \<open>2 ^ 32 - 1\<close> this is \<open>2 ^ 31 - 1\<close>, which is not the floor of half the exact sum.
\<close>

theorem vhadd_u32_sum_wraps:
  "(length a = 2 \<and> length b = 2 \<and> i < 2 \<longrightarrow>
      uint (vhadd_u32 a b ! i) = ((uint (a ! i) + uint (b ! i)) mod 2 ^ 32) div 2) \<and>
   (length c = 4 \<and> length d = 4 \<and> j < 4 \<longrightarrow>
      uint (vhaddq_u32 c d ! j) = ((uint (c ! j) + uint (d ! j)) mod 2 ^ 32) div 2) \<and>
   ((uint (4294967295 :: uint32_t) + uint (4294967295 :: uint32_t)) mod 2 ^ 32) div 2
      \<noteq> (uint (4294967295 :: uint32_t) + uint (4294967295 :: uint32_t)) div 2"
  by (simp add: vhadd_u32_nth vhaddq_u32_nth uint_hadd_u32)

theorem vhadd_u32_sum_wraps_witness:
  "uint (vhadd_u32 [4294967295, 3] [4294967295, 4] ! 0) = 2147483647 \<and>
   uint (vhadd_u32 [4294967295, 3] [4294967295, 4] ! 0)
     \<noteq> (uint (4294967295 :: uint32_t) + uint (4294967295 :: uint32_t)) div 2 \<and>
   uint (vhaddq_u32 [1, 2, 4294967295, 3] [5, 6, 4294967295, 4] ! 2) = 2147483647 \<and>
   uint (vhaddq_u32 [1, 2, 4294967295, 3] [5, 6, 4294967295, 4] ! 1) = 4"
  using
    vhadd_u32_sum_wraps [of "[4294967295, 3]" "[4294967295, 4]" 0
      "[1, 2, 4294967295, 3]" "[5, 6, 4294967295, 4]" 2]
    vhadd_u32_sum_wraps [of "[4294967295, 3]" "[4294967295, 4]" 0
      "[1, 2, 4294967295, 3]" "[5, 6, 4294967295, 4]" 1]
  by simp

text \<open>
  C9. For each element type, the 64-bit entry and the 128-bit entry compute the same
  function of a lane: a lane of \<^verbatim>\<open>vhadd_<type>\<close> and a lane of \<^verbatim>\<open>vhaddq_<type>\<close> that hold
  the same pair of values hold the same result.
\<close>

theorem vhadd_vhaddq_same_lane_function:
  "same_lane_function 8 vhadd_s8 16 vhaddq_s8 \<and>
   same_lane_function 4 vhadd_s16 8 vhaddq_s16 \<and>
   same_lane_function 2 vhadd_s32 4 vhaddq_s32 \<and>
   same_lane_function 8 vhadd_u8 16 vhaddq_u8 \<and>
   same_lane_function 4 vhadd_u16 8 vhaddq_u16 \<and>
   same_lane_function 2 vhadd_u32 4 vhaddq_u32"
  unfolding entry_funs by (intro conjI run_same_lane_function)

theorem vhadd_vhaddq_same_lane_function_witness:
  "vhadd_s8 [127, - 128, 3, 4, 5, 6, 7, 8]
     [127, - 128, - 5, - 4, - 3, - 2, - 1, 0] ! 0 =
   vhaddq_s8 [5, 12, 19, 26, 33, 40, 47, 54, 61, 68, 75, 82, 89, 6, 13, 127]
     [9, 14, 19, 24, 29, 34, 39, 44, 49, 54, 59, 64, 69, 74, 79, 127] ! 15 \<and>
   vhadd_s16 [32767, - 32768, 3, 4]
     [32767, - 32768, - 1, 0] ! 1 =
   vhaddq_s16 [5, 12, 19, 26, 33, 40, - 32768, 54]
     [9, 14, 19, 24, 29, 34, - 32768, 44] ! 6 \<and>
   vhadd_s32 [2147483647, - 2147483648]
     [2147483647, - 2147483648] ! 0 =
   vhaddq_s32 [5, 12, 19, 2147483647]
     [9, 14, 19, 2147483647] ! 3 \<and>
   vhadd_u8 [255, 0, 3, 4, 5, 6, 7, 8]
     [255, 0, 11, 9, 7, 5, 3, 1] ! 3 =
   vhaddq_u8 [5, 12, 19, 26, 33, 40, 47, 54, 61, 68, 75, 82, 89, 6, 4, 20]
     [9, 14, 19, 24, 29, 34, 39, 44, 49, 54, 59, 64, 69, 74, 9, 84] ! 14 \<and>
   vhadd_u16 [65535, 0, 3, 4]
     [65535, 0, 3, 1] ! 0 =
   vhaddq_u16 [5, 12, 19, 26, 33, 40, 47, 65535]
     [9, 14, 19, 24, 29, 34, 39, 65535] ! 7 \<and>
   vhadd_u32 [4294967295, 0]
     [4294967295, 0] ! 1 =
   vhaddq_u32 [5, 12, 0, 26]
     [9, 14, 0, 24] ! 2"
  by (intro conjI; rule same_lane_functionD,
      use vhadd_vhaddq_same_lane_function in blast, simp_all)

text \<open>
  C10. Every entry is commutative: exchanging the two operands, of the entry's shape,
  does not change the vector returned.
\<close>

theorem vhadd_commutative:
  "commutative_entry 8 vhadd_s8 \<and>
   commutative_entry 4 vhadd_s16 \<and>
   commutative_entry 2 vhadd_s32 \<and>
   commutative_entry 8 vhadd_u8 \<and>
   commutative_entry 4 vhadd_u16 \<and>
   commutative_entry 2 vhadd_u32 \<and>
   commutative_entry 16 vhaddq_s8 \<and>
   commutative_entry 8 vhaddq_s16 \<and>
   commutative_entry 4 vhaddq_s32 \<and>
   commutative_entry 16 vhaddq_u8 \<and>
   commutative_entry 8 vhaddq_u16 \<and>
   commutative_entry 4 vhaddq_u32"
  unfolding entry_funs by (intro conjI run_commutative hadd_commute)

theorem vhadd_commutative_witness:
  "vhadd_s8 [127, - 128, 3, 4, 5, 6, 7, 8]
     [0, - 1, - 2, - 3, - 4, - 5, - 128, 127] =
   vhadd_s8 [0, - 1, - 2, - 3, - 4, - 5, - 128, 127]
     [127, - 128, 3, 4, 5, 6, 7, 8] \<and>
   vhadd_s16 [32767, - 32768, 3, 4]
     [0, - 1, - 32768, 32767] =
   vhadd_s16 [0, - 1, - 32768, 32767]
     [32767, - 32768, 3, 4] \<and>
   vhadd_s32 [2147483647, - 2147483648]
     [- 2147483648, 2147483647] =
   vhadd_s32 [- 2147483648, 2147483647]
     [2147483647, - 2147483648] \<and>
   vhadd_u8 [255, 0, 3, 4, 5, 6, 7, 8]
     [1, 3, 5, 7, 9, 11, 0, 255] =
   vhadd_u8 [1, 3, 5, 7, 9, 11, 0, 255]
     [255, 0, 3, 4, 5, 6, 7, 8] \<and>
   vhadd_u16 [65535, 0, 3, 4]
     [1, 3, 0, 65535] =
   vhadd_u16 [1, 3, 0, 65535]
     [65535, 0, 3, 4] \<and>
   vhadd_u32 [4294967295, 0]
     [0, 4294967295] =
   vhadd_u32 [0, 4294967295]
     [4294967295, 0] \<and>
   vhaddq_s8 [127, - 128, 3, 4, 5, 6, 7, 8, 9, 10, 11, 12, 13, 14, 15, 16]
     [0, - 1, - 2, - 3, - 4, - 5, - 6, - 7, - 8, - 9, - 10, - 11, - 12, - 13, - 128, 127] =
   vhaddq_s8 [0, - 1, - 2, - 3, - 4, - 5, - 6, - 7, - 8, - 9, - 10, - 11, - 12, - 13, - 128, 127]
     [127, - 128, 3, 4, 5, 6, 7, 8, 9, 10, 11, 12, 13, 14, 15, 16] \<and>
   vhaddq_s16 [32767, - 32768, 3, 4, 5, 6, 7, 8]
     [0, - 1, - 2, - 3, - 4, - 5, - 32768, 32767] =
   vhaddq_s16 [0, - 1, - 2, - 3, - 4, - 5, - 32768, 32767]
     [32767, - 32768, 3, 4, 5, 6, 7, 8] \<and>
   vhaddq_s32 [2147483647, - 2147483648, 3, 4]
     [0, - 1, - 2147483648, 2147483647] =
   vhaddq_s32 [0, - 1, - 2147483648, 2147483647]
     [2147483647, - 2147483648, 3, 4] \<and>
   vhaddq_u8 [255, 0, 3, 4, 5, 6, 7, 8, 9, 10, 11, 12, 13, 14, 15, 16]
     [1, 3, 5, 7, 9, 11, 13, 15, 17, 19, 21, 23, 25, 27, 0, 255] =
   vhaddq_u8 [1, 3, 5, 7, 9, 11, 13, 15, 17, 19, 21, 23, 25, 27, 0, 255]
     [255, 0, 3, 4, 5, 6, 7, 8, 9, 10, 11, 12, 13, 14, 15, 16] \<and>
   vhaddq_u16 [65535, 0, 3, 4, 5, 6, 7, 8]
     [1, 3, 5, 7, 9, 11, 0, 65535] =
   vhaddq_u16 [1, 3, 5, 7, 9, 11, 0, 65535]
     [65535, 0, 3, 4, 5, 6, 7, 8] \<and>
   vhaddq_u32 [4294967295, 0, 3, 4]
     [1, 3, 0, 4294967295] =
   vhaddq_u32 [1, 3, 0, 4294967295]
     [4294967295, 0, 3, 4]"
  by (intro conjI; rule commutative_entryD, use vhadd_commutative in blast, simp_all)

end
